theory Spec2Isabelle
  imports
    Complex_Main
    "HOL-Library.Char_ord"
    "HOL-Library.List_Lexorder"
    "HOL-Library.Product_Lexorder"
begin

section \<open>The benchmark runner \<^verbatim>\<open>full_benchmark.py\<close>\<close>

text \<open>
  A shallow embedding of the sweep controller of \<^verbatim>\<open>src/full_benchmark.py\<close>: the
  classifier of known errors, the statistics reducer, the construction of one summary
  row, the grid traversal with its persistence of partial data, and the entry point.

  The worker (\<^verbatim>\<open>nvim -l benchmark_dir.lua ...\<close>) is an opaque child process. It enters
  the model as a parameter \<open>run\<close> that gives, for the arguments of one invocation, what
  \<^verbatim>\<open>subprocess.run\<close> and \<^verbatim>\<open>pd.read_csv\<close> produce. Metric values are real numbers or
  missing (\<open>None\<close> stands for pandas' NaN); the decimal text of a number in the report
  is not modelled. Where the program compares a float64 column with a Python integer,
  the rounding of that integer to float64 is modelled.
\<close>

subsection \<open>Strings\<close>

text \<open>Python's \<^verbatim>\<open>pattern in text\<close>: \<open>pattern\<close> occurs as a contiguous substring.\<close>

fun startswith :: "string \<Rightarrow> string \<Rightarrow> bool" where
  "startswith s [] = True"
| "startswith [] (p # ps) = False"
| "startswith (c # cs) (p # ps) = (c = p \<and> startswith cs ps)"

fun str_in :: "string \<Rightarrow> string \<Rightarrow> bool" where
  "str_in pattern [] = (pattern = [])"
| "str_in pattern (c # cs) = (startswith (c # cs) pattern \<or> str_in pattern cs)"

definition newline :: char where
  "newline = CHR 0x0A"

text \<open>
  \<^verbatim>\<open>head, _, _ = stderr.partition("\n")\<close>: the text before the first newline, the
  whole text when it has none.
\<close>

definition partition_head :: "string \<Rightarrow> string" where
  "partition_head s = takeWhile (\<lambda>c. c \<noteq> newline) s"

subsection \<open>Known errors\<close>

text \<open>
  \<^verbatim>\<open>KNOWN_ERRORS\<close>: a dict literal, iterated in insertion order, so an association
  list in the order of the source.
\<close>

definition KNOWN_ERRORS :: "(string \<times> string) list" where
  "KNOWN_ERRORS =
     [(''emfile'', ''EMFILE: too many open files''),
      (''timeout'', ''promise timeout of 20000ms reached'')]"

fun first_match :: "(string \<times> string) list \<Rightarrow> string \<Rightarrow> string option" where
  "first_match [] head = None"
| "first_match ((code, pattern) # rest) head =
     (if str_in pattern head then Some code else first_match rest head)"

definition get_known_error_code :: "string \<Rightarrow> string option" where
  "get_known_error_code stderr = first_match KNOWN_ERRORS (partition_head stderr)"

subsection \<open>Tables, series and exceptions\<close>

text \<open>
  A cell of a float64 column is a number or missing. A column of the table that
  \<^verbatim>\<open>pd.read_csv\<close> returns has the dtype pandas inferred for it: int64 when every
  field is an integer literal, float64 otherwise (columns of other dtypes are not
  modelled). A \<^verbatim>\<open>pd.DataFrame\<close> is the list of its columns, in order, each with its
  name and its cells (one per trial).
\<close>

type_synonym cell = "real option"

datatype column = Int64 "int list" | Float64 "cell list"

type_synonym DataFrame = "(string \<times> column) list"

text \<open>
  The conversion of a Python integer to float64: the nearest number with a
  significand of 53 bits, a tie going to the even significand. (Integers of
  magnitude \<open>2 ^ 1024\<close> and more, which have no float64, are not modelled.)
\<close>

fun bit_length :: "nat \<Rightarrow> nat" where
  "bit_length n = (if n = 0 then 0 else Suc (bit_length (n div 2)))"

declare bit_length.simps [simp del]

definition round_half_even :: "nat \<Rightarrow> nat \<Rightarrow> nat" where
  "round_half_even m s =
     (let q = m div 2 ^ s; r = m mod 2 ^ s in
      if 2 ^ s < 2 * r \<or> (2 * r = 2 ^ s \<and> odd q) then q + 1 else q)"

definition float64_of_nat :: "nat \<Rightarrow> real" where
  "float64_of_nat m = (let s = bit_length m - 53 in real (round_half_even m s * 2 ^ s))"

definition float64_of_int :: "int \<Rightarrow> real" where
  "float64_of_int n = (if n < 0 then - float64_of_nat (nat (- n)) else float64_of_nat (nat n))"

text \<open>
  The cells of a column as the reductions see them: pandas reduces an int64 column
  in float64, or converts its minimum and maximum to float64 when \<^verbatim>\<open>pd.concat\<close> joins
  them with the other statistics.
\<close>

fun cells :: "column \<Rightarrow> cell list" where
  "cells (Int64 xs) = map (\<lambda>n. Some (float64_of_int n)) xs"
| "cells (Float64 xs) = xs"

text \<open>
  A summary row is a \<^verbatim>\<open>pd.Series\<close> with a two-level index: an association list
  from (metric, statistic) to a value, in index order. The values are statistics,
  the status string, or the integers of the grid point.
\<close>

datatype scalar = FloatV cell | StrV string | IntV int

type_synonym Series = "((string \<times> string) \<times> scalar) list"

text \<open>
  The exceptions that travel through the controller. \<open>UnsupportedOperation\<close> is
  \<^verbatim>\<open>io.UnsupportedOperation\<close>, raised by a write to a stream that was opened for
  reading. \<open>OtherException\<close> stands for any other subclass of \<^verbatim>\<open>Exception\<close> that a
  library call raises (a parse error of \<^verbatim>\<open>read_csv\<close>, for instance).
  \<open>KeyboardInterrupt\<close> is the interruption of the process; it derives from
  \<^verbatim>\<open>BaseException\<close> and not from \<^verbatim>\<open>Exception\<close>, so an \<^verbatim>\<open>except Exception\<close> clause
  lets it pass.
\<close>

datatype exn =
    CalledProcessError string
  | AssertionError DataFrame
  | KeyError string
  | ValueError string
  | OSError string
  | UnsupportedOperation string
  | OtherException string
  | KeyboardInterrupt

fun is_Exception :: "exn \<Rightarrow> bool" where
  "is_Exception KeyboardInterrupt = False"
| "is_Exception e = True"

text \<open>
  What \<^verbatim>\<open>subprocess.run(args, capture_output=True, check=True, text=True)\<close>
  followed by \<^verbatim>\<open>pd.read_csv\<close> gives for one invocation: the child could not be
  started; the wait for the child was interrupted from the keyboard; the child exited
  with a non-zero status and left the given text on its error stream; or it exited
  with status zero, its standard output parsed (or failed to parse) as a
  tab-separated table, with the given text on its error stream.
\<close>

datatype proc_result =
    SpawnError string
  | Interrupted
  | NonZeroExit string
  | Completed "exn + DataFrame" string

text \<open>
  The environment: executable, number of files in the fixture directory, parallelism,
  warm-up count and duration determine the outcome of one invocation.
\<close>

type_synonym runner = "string \<Rightarrow> int \<Rightarrow> int \<Rightarrow> int \<Rightarrow> real \<Rightarrow> proc_result"

text \<open>
  The two channels the program writes to. The output sink holds the lines written by
  \<^verbatim>\<open>to_csv\<close>, each line the list of its tab-separated fields; the error channel
  holds what was printed to \<^verbatim>\<open>sys.stderr\<close>. The \<^verbatim>\<open>output\<close> argument of
  \<^verbatim>\<open>main_inner\<close> is \<^verbatim>\<open>None\<close> or a text stream on the sink, opened for reading or for
  writing.
\<close>

datatype text_io = Reader | Writer

datatype field = Text string | Number real | Whole int

datatype err_item = Printed string | Traceback exn

record world =
  out_sink :: "field list list"
  err_channel :: "err_item list"

subsection \<open>The synthetic table and the process invoker\<close>

text \<open>\<^verbatim>\<open>make_empty_data\<close>: three rows, both metrics missing.\<close>

definition make_empty_data :: DataFrame where
  "make_empty_data =
     [(''setup_ms'', Float64 [None, None, None]), (''time_ms'', Float64 [None, None, None])]"

definition benchmark_dir ::
  "runner \<Rightarrow> string \<Rightarrow> int \<Rightarrow> int \<Rightarrow> int \<Rightarrow> real \<Rightarrow> world \<Rightarrow> (exn + DataFrame) \<times> world"
where
  "benchmark_dir run nvim n_files n_parallel n_warmup duration w =
     (case run nvim n_files n_parallel n_warmup duration of
        SpawnError msg \<Rightarrow> (Inl (OSError msg), w)
      | Interrupted \<Rightarrow> (Inl KeyboardInterrupt, w)
      | NonZeroExit err \<Rightarrow> (Inl (CalledProcessError err), w)
      | Completed parsed err \<Rightarrow>
          (case parsed of
             Inl e \<Rightarrow> (Inl e, w)
           | Inr csv \<Rightarrow>
               (Inr csv,
                if err \<noteq> [] then w\<lparr>err_channel := err_channel w @ [Printed err]\<rparr> else w)))"

subsection \<open>The statistics reducer\<close>

text \<open>
  The reductions of pandas along \<^verbatim>\<open>axis=0\<close>, with its default \<^verbatim>\<open>skipna=True\<close>:
  missing cells are dropped first, and a column with no value left (for the standard
  deviation, with its default \<^verbatim>\<open>ddof=1\<close>: fewer than two values left) reduces to
  missing.
\<close>

definition dropna :: "cell list \<Rightarrow> real list" where
  "dropna xs = concat (map (\<lambda>x. case x of None \<Rightarrow> [] | Some v \<Rightarrow> [v]) xs)"

definition col_mean :: "cell list \<Rightarrow> cell" where
  "col_mean xs =
     (let vs = dropna xs in
      if vs = [] then None else Some (sum_list vs / real (length vs)))"

definition col_median :: "cell list \<Rightarrow> cell" where
  "col_median xs =
     (let vs = sort (dropna xs); n = length vs in
      if n = 0 then None
      else if odd n then Some (vs ! (n div 2))
      else Some ((vs ! (n div 2 - 1) + vs ! (n div 2)) / 2))"

definition col_min :: "cell list \<Rightarrow> cell" where
  "col_min xs = (case dropna xs of [] \<Rightarrow> None | v # vs \<Rightarrow> Some (fold min vs v))"

definition col_max :: "cell list \<Rightarrow> cell" where
  "col_max xs = (case dropna xs of [] \<Rightarrow> None | v # vs \<Rightarrow> Some (fold max vs v))"

definition col_std :: "cell list \<Rightarrow> cell" where
  "col_std xs =
     (let vs = dropna xs; n = length vs in
      if n < 2 then None
      else
        (let m = sum_list vs / real n in
         Some (sqrt (sum_list (map (\<lambda>x. (x - m)\<^sup>2) vs) / real (n - 1)))))"

text \<open>
  \<^verbatim>\<open>getattr(data, stat)(axis=0)\<close> for the statistic names the program uses. The
  names are the method names of pandas, which are also the labels of the second index
  level.
\<close>

datatype stat = Mean | Median | Minimum | Maximum | Std

fun stat_name :: "stat \<Rightarrow> string" where
  "stat_name Mean = ''mean''"
| "stat_name Median = ''median''"
| "stat_name Minimum = ''min''"
| "stat_name Maximum = ''max''"
| "stat_name Std = ''std''"

fun reduce_col :: "stat \<Rightarrow> cell list \<Rightarrow> cell" where
  "reduce_col Mean xs = col_mean xs"
| "reduce_col Median xs = col_median xs"
| "reduce_col Minimum xs = col_min xs"
| "reduce_col Maximum xs = col_max xs"
| "reduce_col Std xs = col_std xs"

text \<open>
  \<^verbatim>\<open>collect_stats\<close>. \<^verbatim>\<open>pd.concat(..., keys=stats)\<close> lays the reductions out statistic by
  statistic, each over the columns in their order, indexed by (statistic, column);
  \<^verbatim>\<open>swaplevel\<close> turns each key into (column, statistic); \<^verbatim>\<open>sort_index\<close> sorts the
  entries by key, lexicographically.
\<close>

definition concat_keys :: "DataFrame \<Rightarrow> stat list \<Rightarrow> ((string \<times> string) \<times> scalar) list" where
  "concat_keys data stats =
     concat (map (\<lambda>st. map (\<lambda>(c, col). ((stat_name st, c), FloatV (reduce_col st (cells col)))) data)
               stats)"

definition swaplevel :: "Series \<Rightarrow> Series" where
  "swaplevel s = map (\<lambda>((a, b), v). ((b, a), v)) s"

definition sort_index :: "Series \<Rightarrow> Series" where
  "sort_index s = sort_key fst s"

definition collect_stats :: "DataFrame \<Rightarrow> stat list \<Rightarrow> Series" where
  "collect_stats data stats = sort_index (swaplevel (concat_keys data stats))"

subsection \<open>One row of data\<close>

text \<open>
  \<^verbatim>\<open>result[key] = value\<close> on a series with a two-level index: where \<open>key\<close> is a label
  of the first level, every entry under it is overwritten; otherwise a new entry is
  appended, its key padded with the empty label.
\<close>

definition setitem :: "Series \<Rightarrow> string \<Rightarrow> scalar \<Rightarrow> Series" where
  "setitem s key v =
     (if key \<in> set (map (\<lambda>(k, _). fst k) s)
      then map (\<lambda>(k, x). if fst k = key then (k, v) else (k, x)) s
      else s @ [((key, []), v)])"

text \<open>\<^verbatim>\<open>csv.drop(columns=[...])\<close>: the named columns are removed.\<close>

definition drop_columns :: "string list \<Rightarrow> DataFrame \<Rightarrow> DataFrame" where
  "drop_columns names csv = filter (\<lambda>(c, _). c \<notin> set names) csv"

text \<open>
  \<^verbatim>\<open>csv[name] == n\<close>, cell by cell. An int64 column is compared with the integer
  exactly; a float64 column is compared with the integer converted to float64, and a
  missing cell equals no number.
\<close>

fun column_eq :: "column \<Rightarrow> int \<Rightarrow> bool list" where
  "column_eq (Int64 xs) n = map (\<lambda>x. x = n) xs"
| "column_eq (Float64 xs) n = map (\<lambda>x. x = Some (float64_of_int n)) xs"

text \<open>
  \<^verbatim>\<open>all(csv[name] == n)\<close>: \<open>None\<close> when the table has no such column (pandas raises
  \<^verbatim>\<open>KeyError\<close>), otherwise whether every comparison is true.
\<close>

definition column_all_eq :: "DataFrame \<Rightarrow> string \<Rightarrow> int \<Rightarrow> bool option" where
  "column_all_eq csv name n =
     (case map_of csv name of
        None \<Rightarrow> None
      | Some col \<Rightarrow> Some (list_all (\<lambda>b. b) (column_eq col n)))"

text \<open>
  The last lines of \<^verbatim>\<open>get_data_row\<close>, which both branches reach: reduce the table
  and attach status and grid point.
\<close>

definition attach_metadata :: "DataFrame \<Rightarrow> string \<Rightarrow> int \<Rightarrow> int \<Rightarrow> Series" where
  "attach_metadata csv status n_files n_parallel =
     setitem
       (setitem
          (setitem (collect_stats csv [Mean, Median, Minimum, Maximum, Std])
             ''status'' (StrV status))
          ''n_files'' (IntV n_files))
       ''n_parallel'' (IntV n_parallel)"

text \<open>
  The \<^verbatim>\<open>else\<close> branch of the \<^verbatim>\<open>try\<close> in \<^verbatim>\<open>get_data_row\<close>: the two assertions on the
  echoed columns, then the removal of those columns.
\<close>

definition check_echo :: "DataFrame \<Rightarrow> int \<Rightarrow> int \<Rightarrow> exn + DataFrame" where
  "check_echo csv n_files n_parallel =
     (case column_all_eq csv ''n_files'' n_files of
        None \<Rightarrow> Inl (KeyError ''n_files'')
      | Some False \<Rightarrow> Inl (AssertionError csv)
      | Some True \<Rightarrow>
          (case column_all_eq csv ''n_parallel'' n_parallel of
             None \<Rightarrow> Inl (KeyError ''n_parallel'')
           | Some False \<Rightarrow> Inl (AssertionError csv)
           | Some True \<Rightarrow> Inr (drop_columns [''n_files'', ''n_parallel''] csv)))"

text \<open>
  The \<^verbatim>\<open>except subprocess.CalledProcessError\<close> branch: \<^verbatim>\<open>if not status: raise\<close> is
  taken for \<^verbatim>\<open>None\<close> and for the empty string.
\<close>

definition classify_failure :: "string \<Rightarrow> exn + (DataFrame \<times> string)" where
  "classify_failure err =
     (case get_known_error_code err of
        None \<Rightarrow> Inl (CalledProcessError err)
      | Some status \<Rightarrow>
          if status = [] then Inl (CalledProcessError err)
          else Inr (make_empty_data, status))"

definition get_data_row ::
  "runner \<Rightarrow> string \<Rightarrow> int \<Rightarrow> int \<Rightarrow> int \<Rightarrow> real \<Rightarrow> world \<Rightarrow> (exn + Series) \<times> world"
where
  "get_data_row run nvim n_files n_parallel n_warmup duration w =
     (case benchmark_dir run nvim n_files n_parallel n_warmup duration w of
        (Inl (CalledProcessError err), w') \<Rightarrow>
          (case classify_failure err of
             Inl e \<Rightarrow> (Inl e, w')
           | Inr (csv, status) \<Rightarrow>
               (Inr (attach_metadata csv status n_files n_parallel), w'))
      | (Inl e, w') \<Rightarrow> (Inl e, w')
      | (Inr csv, w') \<Rightarrow>
          (case check_echo csv n_files n_parallel of
             Inl e \<Rightarrow> (Inl e, w')
           | Inr csv' \<Rightarrow>
               (Inr (attach_metadata csv' ''ok'' n_files n_parallel), w')))"

subsection \<open>The report\<close>

text \<open>
  \<^verbatim>\<open>pd.DataFrame(rows)\<close>: the columns of the frame are the keys of the rows, each
  once, in the order of first appearance; a row without a key has a missing value
  there. The rows carry no name, so the index column is the row number.
\<close>

definition frame_columns :: "Series list \<Rightarrow> (string \<times> string) list" where
  "frame_columns rows = rev (remdups (rev (concat (map (map fst) rows))))"

definition row_cell :: "Series \<Rightarrow> string \<times> string \<Rightarrow> scalar" where
  "row_cell row key = (case map_of row key of None \<Rightarrow> FloatV None | Some v \<Rightarrow> v)"

text \<open>A field of a data line: a missing value is written as the text \<open>na_rep\<close>.\<close>

fun render :: "string \<Rightarrow> scalar \<Rightarrow> field" where
  "render na_rep (FloatV None) = Text na_rep"
| "render na_rep (FloatV (Some x)) = Number x"
| "render na_rep (StrV s) = Text s"
| "render na_rep (IntV i) = Whole i"

definition data_line :: "(string \<times> string) list \<Rightarrow> string \<Rightarrow> nat \<times> Series \<Rightarrow> field list" where
  "data_line cols na_rep = (\<lambda>(i, row). Whole (int i) # map (\<lambda>k. render na_rep (row_cell row k)) cols)"

text \<open>
  \<^verbatim>\<open>pd.DataFrame(rows).to_csv(output, sep="\t", na_rep=...)\<close>: the lines written. Two
  header lines, one per level of the column index, each starting with the empty field
  of the index column; then one line per row.
\<close>

definition to_csv :: "Series list \<Rightarrow> string \<Rightarrow> field list list" where
  "to_csv rows na_rep =
     (let cols = frame_columns rows in
      (Text [] # map (\<lambda>k. Text (fst k)) cols)
      # (Text [] # map (\<lambda>k. Text (snd k)) cols)
      # map (data_line cols na_rep) (enumerate 0 rows))"

subsection \<open>The sweep controller\<close>

text \<open>
  The two nested \<^verbatim>\<open>for\<close> loops of \<^verbatim>\<open>main_inner\<close>, over the values the two ranges
  yield. Each returns the exception that ended it, if any, with the rows accumulated
  so far. The fixture directory of an outer value (\<^verbatim>\<open>TemporaryDirectory\<close>, \<^verbatim>\<open>gendir\<close>)
  acts on the worker only through the number of files in it, which \<open>run\<close> receives;
  creating and removing it is taken to succeed.
\<close>

fun inner_loop ::
  "runner \<Rightarrow> string \<Rightarrow> int \<Rightarrow> int list \<Rightarrow> int \<Rightarrow> real \<Rightarrow> Series list \<Rightarrow> world
     \<Rightarrow> (exn option \<times> Series list) \<times> world"
where
  "inner_loop run nvim n_files [] n_warmup duration rows w = ((None, rows), w)"
| "inner_loop run nvim n_files (n_parallel # rest) n_warmup duration rows w =
     (case get_data_row run nvim n_files n_parallel n_warmup duration w of
        (Inl e, w') \<Rightarrow> ((Some e, rows), w')
      | (Inr row, w') \<Rightarrow> inner_loop run nvim n_files rest n_warmup duration (rows @ [row]) w')"

fun outer_loop ::
  "runner \<Rightarrow> string \<Rightarrow> int list \<Rightarrow> int list \<Rightarrow> int \<Rightarrow> real \<Rightarrow> Series list \<Rightarrow> world
     \<Rightarrow> (exn option \<times> Series list) \<times> world"
where
  "outer_loop run nvim [] parallel_range n_warmup duration rows w = ((None, rows), w)"
| "outer_loop run nvim (n_files # rest) parallel_range n_warmup duration rows w =
     (case inner_loop run nvim n_files parallel_range n_warmup duration rows w of
        ((Some e, rows'), w') \<Rightarrow> ((Some e, rows'), w')
      | ((None, rows'), w') \<Rightarrow> outer_loop run nvim rest parallel_range n_warmup duration rows' w')"

text \<open>
  \<^verbatim>\<open>pd.DataFrame(rows).to_csv(output, ...)\<close> as an action on the sink. With
  \<^verbatim>\<open>None\<close> for \<^verbatim>\<open>output\<close> pandas returns the text and writes nothing; a stream opened
  for reading refuses the first write with \<^verbatim>\<open>io.UnsupportedOperation\<close>; a stream
  opened for writing receives the lines.
\<close>

definition write_csv :: "Series list \<Rightarrow> text_io option \<Rightarrow> string \<Rightarrow> world \<Rightarrow> exn option \<times> world" where
  "write_csv rows output na_rep w =
     (case output of
        None \<Rightarrow> (None, w)
      | Some Reader \<Rightarrow> (Some (UnsupportedOperation ''not writable''), w)
      | Some Writer \<Rightarrow> (None, w\<lparr>out_sink := out_sink w @ to_csv rows na_rep\<rparr>))"

text \<open>
  \<^verbatim>\<open>main_inner\<close>. The handler \<^verbatim>\<open>except Exception\<close> is entered for the exceptions
  that derive from \<^verbatim>\<open>Exception\<close>; any other leaves \<^verbatim>\<open>main_inner\<close> at once. The
  handler writes the rows, if there are any, with the default \<^verbatim>\<open>na_rep\<close> of
  \<^verbatim>\<open>to_csv\<close> (the empty string) and raises the exception again; an exception raised by
  the write itself takes its place. The normal exit raises \<^verbatim>\<open>ValueError("no data")\<close>
  when there is no row and otherwise writes the rows with \<^verbatim>\<open>na_rep="nan"\<close>.
\<close>

definition main_inner ::
  "runner \<Rightarrow> string \<Rightarrow> int list \<Rightarrow> int list \<Rightarrow> int \<Rightarrow> real \<Rightarrow> text_io option \<Rightarrow> world
     \<Rightarrow> (exn + unit) \<times> world"
where
  "main_inner run nvim files_range parallel_range n_warmup duration output w =
     (case outer_loop run nvim files_range parallel_range n_warmup duration [] w of
        ((Some e, rows), w') \<Rightarrow>
          if is_Exception e then
            (if rows \<noteq> [] then
               (case write_csv rows output [] w' of
                  (Some e', w'') \<Rightarrow> (Inl e', w'')
                | (None, w'') \<Rightarrow> (Inl e, w''))
             else (Inl e, w'))
          else (Inl e, w')
      | ((None, rows), w') \<Rightarrow>
          if rows = [] then (Inl (ValueError ''no data''), w')
          else
            (case write_csv rows output ''nan'' w' of
               (Some e', w'') \<Rightarrow> (Inl e', w'')
             | (None, w'') \<Rightarrow> (Inr (), w'')))"

subsection \<open>The entry point\<close>

text \<open>
  \<^verbatim>\<open>range(start, stop, step)\<close> as the list of its values; Python raises
  \<^verbatim>\<open>ValueError\<close> for a zero step.
\<close>

definition py_range :: "int \<times> int \<times> int \<Rightarrow> exn + int list" where
  "py_range r =
     (case r of (start, stop, step) \<Rightarrow>
        if step = 0 then Inl (ValueError ''range() arg 3 must not be zero'')
        else if 0 < step
        then Inr (map (\<lambda>k. start + int k * step) [0..<nat ((stop - start + step - 1) div step)])
        else Inr (map (\<lambda>k. start + int k * step) [0..<nat ((start - stop - step - 1) div (- step))]))"

text \<open>
  The parsed command line, as \<^verbatim>\<open>main\<close> reads it. \<open>args_nvim\<close> is \<open>None\<close> when no
  executable was found; \<open>args_parallel_range\<close> is \<open>None\<close> for the falsey default
  \<^verbatim>\<open>SameAsFiles()\<close>. \<open>args_output\<close> is \<open>None\<close> without \<^verbatim>\<open>-o\<close> and otherwise the
  name of the file, which the parser has opened with \<^verbatim>\<open>argparse.FileType("r")\<close>: the
  stream that \<^verbatim>\<open>main\<close> hands on is opened for reading.
\<close>

record args =
  args_output :: "string option"
  args_nvim :: "string option"
  args_files_range :: "int \<times> int \<times> int"
  args_parallel_range :: "(int \<times> int \<times> int) option"
  args_n_warmup :: int
  args_duration :: real

definition separator :: string where
  "separator = replicate 30 (CHR ''-'')"

definition main :: "runner \<Rightarrow> args \<Rightarrow> world \<Rightarrow> (exn + int) \<times> world" where
  "main run a w =
     (case args_nvim a of
        None \<Rightarrow> (Inl (OSError ''no nvim found''), w)
      | Some nvim \<Rightarrow>
          (case py_range (args_files_range a) of
             Inl e \<Rightarrow> (Inl e, w)
           | Inr files_range \<Rightarrow>
               (case (case args_parallel_range a of
                        None \<Rightarrow> Inr files_range
                      | Some r \<Rightarrow> py_range r) of
                  Inl e \<Rightarrow> (Inl e, w)
                | Inr parallel_range \<Rightarrow>
                    (case main_inner run nvim files_range parallel_range
                            (args_n_warmup a) (args_duration a)
                            (map_option (\<lambda>name. Reader) (args_output a)) w of
                       (Inl (CalledProcessError err), w') \<Rightarrow>
                         (Inr 1,
                          w'\<lparr>err_channel := err_channel w' @
                             [Traceback (CalledProcessError err),
                              Printed separator,
                              Printed (''catured error output:'' @ newline # err)]\<rparr>)
                     | (Inl e, w') \<Rightarrow> (Inl e, w')
                     | (Inr u, w') \<Rightarrow> (Inr 0, w')))))"

text \<open>
  The module run as a program: \<^verbatim>\<open>if __name__ == "__main__": main(sys.argv[1:])\<close>.
  The value \<^verbatim>\<open>main\<close> returns is dropped. The interpreter ends with status 0 when the
  module body returns, and prints the traceback and ends with status 1 when an
  exception leaves it (with status 130, the exit by \<^verbatim>\<open>SIGINT\<close>, for
  \<^verbatim>\<open>KeyboardInterrupt\<close>).
\<close>

definition run_as_script :: "runner \<Rightarrow> args \<Rightarrow> world \<Rightarrow> int \<times> world" where
  "run_as_script run a w =
     (case main run a w of
        (Inl e, w') \<Rightarrow>
          (if e = KeyboardInterrupt then 130 else 1,
           w'\<lparr>err_channel := err_channel w' @ [Traceback e]\<rparr>)
      | (Inr returned, w') \<Rightarrow> (0, w'))"

section \<open>Properties\<close>

subsection \<open>Substrings and the first line\<close>

lemma startswith_iff: "startswith s p \<longleftrightarrow> (\<exists>b. s = p @ b)"
  by (induction s p rule: startswith.induct) auto

lemma str_in_iff: "str_in p s \<longleftrightarrow> (\<exists>a b. s = a @ p @ b)"
proof (induction s)
  case Nil
  then show ?case by auto
next
  case (Cons c cs)
  show ?case
  proof
    assume "str_in p (c # cs)"
    then consider "startswith (c # cs) p" | "str_in p cs" by auto
    then show "\<exists>a b. c # cs = a @ p @ b"
    proof cases
      case 1
      then obtain b where "c # cs = p @ b" by (auto simp: startswith_iff)
      then have "c # cs = [] @ p @ b" by simp
      then show ?thesis by blast
    next
      case 2
      then obtain a b where "cs = a @ p @ b" using Cons.IH by auto
      then have "c # cs = (c # a) @ p @ b" by simp
      then show ?thesis by blast
    qed
  next
    assume "\<exists>a b. c # cs = a @ p @ b"
    then obtain a b where ab: "c # cs = a @ p @ b" by blast
    show "str_in p (c # cs)"
    proof (cases a)
      case Nil
      then have "startswith (c # cs) p" using ab by (auto simp: startswith_iff)
      then show ?thesis by simp
    next
      case (Cons a0 as)
      then have "cs = as @ p @ b" using ab by simp
      then have "str_in p cs" using Cons.IH by blast
      then show ?thesis by simp
    qed
  qed
qed

lemma partition_head_first_line:
  "newline \<notin> set h \<Longrightarrow> partition_head (h @ newline # rest) = h"
  by (induction h) (auto simp: partition_head_def)

lemma partition_head_single_line:
  "newline \<notin> set h \<Longrightarrow> partition_head h = h"
  by (induction h) (auto simp: partition_head_def)

lemma get_known_error_code_cases:
  "get_known_error_code stderr =
     (if str_in ''EMFILE: too many open files'' (partition_head stderr) then Some ''emfile''
      else if str_in ''promise timeout of 20000ms reached'' (partition_head stderr) then Some ''timeout''
      else None)"
  by (simp add: get_known_error_code_def KNOWN_ERRORS_def)

subsection \<open>The grid traversal does not write to the output sink\<close>

lemma benchmark_dir_sink:
  "benchmark_dir run nvim nf np nw d w = (r, w') \<Longrightarrow> out_sink w' = out_sink w"
  by (auto simp: benchmark_dir_def split: proc_result.splits sum.splits if_splits)

lemma get_data_row_sink:
  "get_data_row run nvim nf np nw d w = (r, w') \<Longrightarrow> out_sink w' = out_sink w"
  by (auto simp: get_data_row_def split: prod.splits sum.splits exn.splits dest: benchmark_dir_sink)

lemma inner_loop_sink:
  "inner_loop run nvim nf nps nw d rows w = (r, w') \<Longrightarrow> out_sink w' = out_sink w"
proof (induction nps arbitrary: rows w)
  case Nil
  then show ?case by simp
next
  case (Cons np nps)
  then show ?case
    by (auto split: prod.splits sum.splits dest: get_data_row_sink)
qed

lemma outer_loop_sink:
  "outer_loop run nvim nfs nps nw d rows w = (r, w') \<Longrightarrow> out_sink w' = out_sink w"
proof (induction nfs arbitrary: rows w)
  case Nil
  then show ?case by simp
next
  case (Cons nf nfs)
  then show ?case
    by (auto split: prod.splits option.splits dest: inner_loop_sink)
qed

lemma inner_loop_empty: "inner_loop run nvim nf [] nw d rows w = ((None, rows), w)"
  by simp

lemma outer_loop_inner_empty:
  "outer_loop run nvim nfs [] nw d rows w = ((None, rows), w)"
  by (induction nfs arbitrary: rows w) auto

lemma length_to_csv: "length (to_csv rows na_rep) = 2 + length rows"
  by (simp add: to_csv_def Let_def)

lemma to_csv_data_line:
  "i < length rows \<Longrightarrow>
     to_csv rows na_rep ! (2 + i) = data_line (frame_columns rows) na_rep (i, rows ! i)"
  by (simp add: to_csv_def Let_def nth_enumerate_eq)

lemma get_data_row_unrecognized:
  "run nvim nf np nw d = NonZeroExit err \<Longrightarrow> get_known_error_code err = None \<Longrightarrow>
     get_data_row run nvim nf np nw d w = (Inl (CalledProcessError err), w)"
  by (simp add: get_data_row_def benchmark_dir_def classify_failure_def)

text \<open>The definitions unfolded when the model is run on a concrete worker.\<close>

lemmas run_simps = get_data_row_def benchmark_dir_def classify_failure_def
  get_known_error_code_def KNOWN_ERRORS_def partition_head_def newline_def

lemmas stat_simps = attach_metadata_def collect_stats_def sort_index_def swaplevel_def
  concat_keys_def setitem_def drop_columns_def check_echo_def column_all_eq_def
  col_mean_def col_median_def col_min_def col_max_def col_std_def dropna_def
  make_empty_data_def

subsection \<open>The classifier\<close>

text \<open>
  Claim C2. The classifier looks only at the text before the first newline: it
  returns \<open>emfile\<close> when that line contains \<^verbatim>\<open>EMFILE: too many open files\<close>,
  otherwise \<open>timeout\<close> when it contains \<^verbatim>\<open>promise timeout of 20000ms reached\<close>,
  otherwise \<open>None\<close>. Whatever follows the first newline does not change the result.
  When the result is \<open>None\<close>, \<open>get_data_row\<close> raises the process failure it caught,
  with the same error text.
\<close>

theorem classification_first_line:
  "get_known_error_code stderr =
     (if str_in ''EMFILE: too many open files'' (partition_head stderr) then Some ''emfile''
      else if str_in ''promise timeout of 20000ms reached'' (partition_head stderr)
      then Some ''timeout''
      else None)
   \<and> (newline \<notin> set head \<longrightarrow>
        partition_head (head @ newline # rest) = head
        \<and> get_known_error_code (head @ newline # rest) = get_known_error_code head)
   \<and> (run nvim n_files n_parallel n_warmup duration = NonZeroExit stderr
        \<and> get_known_error_code stderr = None \<longrightarrow>
        get_data_row run nvim n_files n_parallel n_warmup duration w
          = (Inl (CalledProcessError stderr), w))"
  using get_known_error_code_cases [of stderr]
    partition_head_first_line [of head rest] partition_head_single_line [of head]
    get_data_row_unrecognized [of run nvim n_files n_parallel n_warmup duration stderr w]
  by (simp add: get_known_error_code_def)

theorem classification_first_line_witness:
  "newline \<notin> set ''x EMFILE: too many open files''
   \<and> get_known_error_code
        (''x EMFILE: too many open files'' @ newline # ''promise timeout of 20000ms reached'')
      = Some ''emfile''
   \<and> (\<lambda>a b c e f. NonZeroExit ''boom'') ''nvim'' 0 0 10 2 = NonZeroExit ''boom''
   \<and> get_known_error_code ''boom'' = None
   \<and> get_data_row (\<lambda>a b c e f. NonZeroExit ''boom'') ''nvim'' 0 0 10 2
        \<lparr>out_sink = [], err_channel = []\<rparr>
      = (Inl (CalledProcessError ''boom''), \<lparr>out_sink = [], err_channel = []\<rparr>)"
proof -
  have nl: "newline \<notin> set ''x EMFILE: too many open files''"
    by (simp add: newline_def)
  have none: "get_known_error_code ''boom'' = None"
    by (simp add: get_known_error_code_def KNOWN_ERRORS_def partition_head_def newline_def)
  have first: "get_known_error_code ''x EMFILE: too many open files'' = Some ''emfile''"
    by (simp add: get_known_error_code_def KNOWN_ERRORS_def partition_head_def newline_def)
  show ?thesis
    using nl none first
      classification_first_line
        [of "''boom''" "''x EMFILE: too many open files''"
            "''promise timeout of 20000ms reached''"
            "\<lambda>a b c e f. NonZeroExit ''boom''" "''nvim''" 0 0 10 2
            "\<lparr>out_sink = [], err_channel = []\<rparr>"]
    by simp
qed

subsection \<open>The outcome of a grid point does not depend on the channels\<close>

lemma benchmark_dir_fst:
  "fst (benchmark_dir run nvim nf np nw d w) = fst (benchmark_dir run nvim nf np nw d w0)"
  by (simp add: benchmark_dir_def split: proc_result.splits sum.splits)

lemma get_data_row_fst:
  "fst (get_data_row run nvim nf np nw d w) = fst (get_data_row run nvim nf np nw d w0)"
  using benchmark_dir_fst [of run nvim nf np nw d w w0]
  by (auto simp: get_data_row_def split: prod.splits sum.splits exn.splits)

lemma get_data_row_completed:
  "run nvim nf np nw d = Completed (Inr csv) err \<Longrightarrow>
     fst (get_data_row run nvim nf np nw d w)
       = (case check_echo csv nf np of
            Inl e \<Rightarrow> Inl e
          | Inr csv' \<Rightarrow> Inr (attach_metadata csv' ''ok'' nf np))"
  by (simp add: get_data_row_def benchmark_dir_def split: sum.splits)

subsection \<open>Integers that float64 holds exactly\<close>

lemma bit_length_le: "m < 2 ^ k \<Longrightarrow> bit_length m \<le> k"
proof (induction k arbitrary: m)
  case 0
  then show ?case by (simp add: bit_length.simps)
next
  case (Suc k)
  show ?case
  proof (cases "m = 0")
    case True
    then show ?thesis by (simp add: bit_length.simps)
  next
    case False
    have "m div 2 < 2 ^ k" using Suc.prems by simp
    then have "bit_length (m div 2) \<le> k" by (rule Suc.IH)
    then show ?thesis using False by (subst bit_length.simps) simp
  qed
qed

lemma float64_of_nat_exact: "m \<le> 2 ^ 53 \<Longrightarrow> float64_of_nat m = real m"
proof (cases "m = 2 ^ 53")
  case True
  have "bit_length ((2::nat) ^ 53) \<le> 54"
    by (rule bit_length_le) simp
  moreover have "\<not> bit_length ((2::nat) ^ 53) \<le> 53"
    by (simp add: bit_length.simps)
  ultimately have "bit_length ((2::nat) ^ 53) = 54" by simp
  then show ?thesis using True
    by (simp add: float64_of_nat_def round_half_even_def)
next
  case False
  assume "m \<le> 2 ^ 53"
  then have "m < 2 ^ 53" using False by simp
  then have "bit_length m \<le> 53" by (rule bit_length_le)
  then show ?thesis
    by (simp add: float64_of_nat_def round_half_even_def)
qed

lemma float64_of_int_exact: "\<bar>n\<bar> \<le> 2 ^ 53 \<Longrightarrow> float64_of_int n = real_of_int n"
proof (cases "n < 0")
  case True
  assume "\<bar>n\<bar> \<le> 2 ^ 53"
  then have "nat (- n) \<le> 2 ^ 53" using True by (simp add: nat_le_iff)
  then have "float64_of_nat (nat (- n)) = real (nat (- n))" by (rule float64_of_nat_exact)
  then show ?thesis using True by (simp add: float64_of_int_def)
next
  case False
  assume "\<bar>n\<bar> \<le> 2 ^ 53"
  then have "nat n \<le> 2 ^ 53" using False by (simp add: nat_le_iff)
  then have "float64_of_nat (nat n) = real (nat n)" by (rule float64_of_nat_exact)
  then show ?thesis using False by (simp add: float64_of_int_def)
qed

lemma float64_rounds_above: "float64_of_int 9007199254740993 = 9007199254740992"
  by (simp add: float64_of_int_def float64_of_nat_def round_half_even_def bit_length.simps)

subsection \<open>The rows a traversal accumulates\<close>

lemma inner_loop_abort:
  assumes "k < length nps"
    and "map (\<lambda>np. fst (get_data_row run nvim nf np nw d w0)) (take k nps) = map Inr new"
    and "fst (get_data_row run nvim nf (nps ! k) nw d w0) = Inl e"
  shows "fst (inner_loop run nvim nf nps nw d rows w) = (Some e, rows @ new)"
  using assms
proof (induction nps arbitrary: k new rows w)
  case Nil
  then show ?case by simp
next
  case (Cons a nps)
  obtain r w' where g: "get_data_row run nvim nf a nw d w = (r, w')"
    by (cases "get_data_row run nvim nf a nw d w")
  have r: "r = fst (get_data_row run nvim nf a nw d w0)"
    using g get_data_row_fst [of run nvim nf a nw d w w0] by simp
  show ?case
  proof (cases k)
    case 0
    then have "new = []" "r = Inl e" using Cons.prems r by simp_all
    then show ?thesis using g by simp
  next
    case (Suc k')
    then obtain x new' where new: "new = x # new'" "r = Inr x"
      "map (\<lambda>np. fst (get_data_row run nvim nf np nw d w0)) (take k' nps) = map Inr new'"
      using Cons.prems(2) r by (cases new) auto
    have "fst (inner_loop run nvim nf nps nw d (rows @ [x]) w') = (Some e, (rows @ [x]) @ new')"
      using Cons.IH [of k' new' "rows @ [x]" w'] Cons.prems(1,3) Suc new(3) by simp
    then show ?thesis using g new by simp
  qed
qed

lemma inner_loop_complete:
  assumes "map (\<lambda>np. fst (get_data_row run nvim nf np nw d w0)) nps = map Inr new"
  shows "fst (inner_loop run nvim nf nps nw d rows w) = (None, rows @ new)"
  using assms
proof (induction nps arbitrary: new rows w)
  case Nil
  then show ?case by simp
next
  case (Cons a nps)
  obtain r w' where g: "get_data_row run nvim nf a nw d w = (r, w')"
    by (cases "get_data_row run nvim nf a nw d w")
  have r: "r = fst (get_data_row run nvim nf a nw d w0)"
    using g get_data_row_fst [of run nvim nf a nw d w w0] by simp
  obtain x new' where new: "new = x # new'" "r = Inr x"
    "map (\<lambda>np. fst (get_data_row run nvim nf np nw d w0)) nps = map Inr new'"
    using Cons.prems r by (cases new) auto
  have "fst (inner_loop run nvim nf nps nw d (rows @ [x]) w') = (None, (rows @ [x]) @ new')"
    using Cons.IH [of new' "rows @ [x]" w'] new(3) by simp
  then show ?case using g new by simp
qed

lemma outer_loop_abort:
  assumes "k < length (List.product nfs nps)"
    and "map (\<lambda>(nf, np). fst (get_data_row run nvim nf np nw d w0)) (take k (List.product nfs nps))
           = map Inr new"
    and "(case List.product nfs nps ! k of (nf, np) \<Rightarrow> fst (get_data_row run nvim nf np nw d w0))
           = Inl e"
  shows "fst (outer_loop run nvim nfs nps nw d rows w) = (Some e, rows @ new)"
  using assms
proof (induction nfs arbitrary: k new rows w)
  case Nil
  then show ?case by simp
next
  case (Cons nf nfs)
  let ?m = "length nps"
  let ?G = "\<lambda>(nf, np). fst (get_data_row run nvim nf np nw d w0)"
  obtain r w' where il: "inner_loop run nvim nf nps nw d rows w = (r, w')"
    by (cases "inner_loop run nvim nf nps nw d rows w")
  show ?case
  proof (cases "k < ?m")
    case True
    have a: "map (\<lambda>np. fst (get_data_row run nvim nf np nw d w0)) (take k nps) = map Inr new"
      using Cons.prems(2) True by (simp add: take_map comp_def)
    have b: "fst (get_data_row run nvim nf (nps ! k) nw d w0) = Inl e"
      using Cons.prems(3) True by (simp add: nth_append)
    have "r = (Some e, rows @ new)"
      using inner_loop_abort [OF True a b, of rows w] il by simp
    then show ?thesis using il by simp
  next
    case False
    then have k: "?m \<le> k" by simp
    have split: "map (\<lambda>np. fst (get_data_row run nvim nf np nw d w0)) nps
                   @ map ?G (take (k - ?m) (List.product nfs nps)) = map Inr new"
      using Cons.prems(2) k by (simp add: comp_def)
    have len: "?m \<le> length new"
      using arg_cong [OF split, of length] by simp
    have s1: "map (\<lambda>np. fst (get_data_row run nvim nf np nw d w0)) nps = map Inr (take ?m new)"
      using arg_cong [OF split, of "take ?m"] by (simp add: take_map)
    have s2: "map ?G (take (k - ?m) (List.product nfs nps)) = map Inr (drop ?m new)"
      using arg_cong [OF split, of "drop ?m"] by (simp add: drop_map)
    have r: "r = (None, rows @ take ?m new)"
      using inner_loop_complete [OF s1, of rows w] il by simp
    have k': "k - ?m < length (List.product nfs nps)"
      using Cons.prems(1) k by simp
    have e: "(case List.product nfs nps ! (k - ?m) of (nf, np) \<Rightarrow>
                fst (get_data_row run nvim nf np nw d w0)) = Inl e"
      using Cons.prems(3) k by (simp add: nth_append)
    have "fst (outer_loop run nvim nfs nps nw d (rows @ take ?m new) w')
            = (Some e, (rows @ take ?m new) @ drop ?m new)"
      by (rule Cons.IH [OF k' s2 e])
    then show ?thesis using il r by simp
  qed
qed

lemma traversal_abort:
  assumes "N < length (List.product files_range parallel_range)"
    and "map (\<lambda>(nf, np). fst (get_data_row run nvim nf np nw d w))
             (take N (List.product files_range parallel_range)) = map Inr rows"
    and "(case List.product files_range parallel_range ! N of (nf, np) \<Rightarrow>
            fst (get_data_row run nvim nf np nw d w)) = Inl e"
  shows "\<exists>w'. outer_loop run nvim files_range parallel_range nw d [] w = ((Some e, rows), w')
              \<and> out_sink w' = out_sink w"
proof -
  obtain r w' where ol: "outer_loop run nvim files_range parallel_range nw d [] w = (r, w')"
    by (cases "outer_loop run nvim files_range parallel_range nw d [] w")
  have "r = (Some e, rows)"
    using outer_loop_abort [OF assms, of "[]" w] ol by simp
  then show ?thesis using ol outer_loop_sink [OF ol] by simp
qed

subsection \<open>Persistence of partial data\<close>










text \<open>
  Claim C10. When the grid traversal ends with an exception before any row was
  accumulated, \<open>main_inner\<close> raises the same exception and the output sink is as it
  was: nothing is written, not even the header lines.
\<close>

theorem no_rows_sink_untouched:
  assumes "outer_loop run nvim files_range parallel_range n_warmup duration [] w
             = ((Some e, []), w')"
  shows "main_inner run nvim files_range parallel_range n_warmup duration output w = (Inl e, w')
         \<and> out_sink w' = out_sink w"
  using assms outer_loop_sink [OF assms]
  by (simp add: main_inner_def)

theorem no_rows_sink_untouched_witness:
  "outer_loop (\<lambda>nvim nf np nw d. NonZeroExit ''boom'') ''nvim'' [0] [0, 1] 10 2 []
     \<lparr>out_sink = [], err_channel = []\<rparr>
     = ((Some (CalledProcessError ''boom''), []), \<lparr>out_sink = [], err_channel = []\<rparr>)
   \<and> main_inner (\<lambda>nvim nf np nw d. NonZeroExit ''boom'') ''nvim'' [0] [0, 1] 10 2 (Some Writer)
       \<lparr>out_sink = [], err_channel = []\<rparr>
     = (Inl (CalledProcessError ''boom''), \<lparr>out_sink = [], err_channel = []\<rparr>)"
proof -
  have loop:
    "outer_loop (\<lambda>nvim nf np nw d. NonZeroExit ''boom'') ''nvim'' [0] [0, 1] 10 2 []
       \<lparr>out_sink = [], err_channel = []\<rparr>
     = ((Some (CalledProcessError ''boom''), []), \<lparr>out_sink = [], err_channel = []\<rparr>)"
    by (simp add: run_simps)
  show ?thesis
    using loop no_rows_sink_untouched [OF loop, of "Some Writer"] by simp
qed

text \<open>
  Claim C6. With an empty outer range or an empty inner range, \<open>main_inner\<close> raises
  \<^verbatim>\<open>ValueError("no data")\<close>, which is not the \<^verbatim>\<open>CalledProcessError\<close> of a failed
  worker, and leaves the output sink and the error channel untouched.
\<close>

theorem empty_grid_no_data:
  "files_range = [] \<or> parallel_range = [] \<Longrightarrow>
     main_inner run nvim files_range parallel_range n_warmup duration output w
       = (Inl (ValueError ''no data''), w)"
  by (auto simp: main_inner_def outer_loop_inner_empty)

theorem empty_grid_no_data_witness:
  "main_inner (\<lambda>nvim nf np nw d. NonZeroExit ''boom'') ''nvim'' [] [0, 100] 10 2 (Some Writer)
     \<lparr>out_sink = [], err_channel = []\<rparr>
     = (Inl (ValueError ''no data''), \<lparr>out_sink = [], err_channel = []\<rparr>)
   \<and> main_inner (\<lambda>nvim nf np nw d. NonZeroExit ''boom'') ''nvim'' [0, 100] [] 10 2 (Some Writer)
       \<lparr>out_sink = [], err_channel = []\<rparr>
     = (Inl (ValueError ''no data''), \<lparr>out_sink = [], err_channel = []\<rparr>)"
  using empty_grid_no_data [of "[]" "[0, 100]" "\<lambda>nvim nf np nw d. NonZeroExit ''boom''"
          "''nvim''" 10 2 "Some Writer" "\<lparr>out_sink = [], err_channel = []\<rparr>"]
        empty_grid_no_data [of "[0, 100]" "[]" "\<lambda>nvim nf np nw d. NonZeroExit ''boom''"
          "''nvim''" 10 2 "Some Writer" "\<lparr>out_sink = [], err_channel = []\<rparr>"]
  by simp

subsection \<open>The entries of a reduced table\<close>

lemma set_collect_stats:
  "set (collect_stats data stats) =
     {((c, stat_name st), FloatV (reduce_col st (cells col))) | c col st.
        (c, col) \<in> set data \<and> st \<in> set stats}"
  by (auto simp: collect_stats_def sort_index_def swaplevel_def concat_keys_def) force

lemma keys_collect_stats:
  "fst ` set (collect_stats data stats) = (fst ` set data) \<times> (stat_name ` set stats)"
  by (auto simp: set_collect_stats image_iff) force+








subsection \<open>The echoed grid point\<close>

lemma column_eq_exact:
  assumes "(\<exists>xs. col = Int64 xs) \<or> \<bar>n\<bar> \<le> 2 ^ 53"
  shows "list_all (\<lambda>b. b) (column_eq col n) =
           (case col of
              Int64 xs \<Rightarrow> \<forall>x \<in> set xs. x = n
            | Float64 xs \<Rightarrow> \<forall>x \<in> set xs. x = Some (real_of_int n))"
proof (cases col)
  case (Int64 xs)
  then show ?thesis by (simp add: list_all_iff)
next
  case (Float64 xs)
  then have "float64_of_int n = real_of_int n"
    using assms float64_of_int_exact by auto
  then show ?thesis using Float64 by (simp add: list_all_iff)
qed

lemma main_inner_raises:
  assumes "outer_loop run nvim files_range parallel_range nw d [] w = ((Some e, rows), w')"
    and "output \<noteq> Some Reader"
  shows "fst (main_inner run nvim files_range parallel_range nw d output w) = Inl e"
proof (cases "output")
  case None
  then show ?thesis using assms(1) by (simp add: main_inner_def write_csv_def)
next
  case (Some h)
  then have "h = Writer" using assms(2) by (cases h) simp_all
  then show ?thesis using assms(1) Some by (simp add: main_inner_def write_csv_def)
qed

text \<open>
  Claim C8, as amended. Let the worker exit with status zero and a table that has
  both echoed columns, each of them an integer column or compared with a requested
  value of magnitude at most \<open>2 ^ 53\<close>. When every cell of the two columns equals the
  requested grid point, no assertion fails and \<open>get_data_row\<close> returns the row with
  status \<open>ok\<close>. When some cell differs, \<open>get_data_row\<close> raises \<^verbatim>\<open>AssertionError\<close>
  with the table: no row, so no sentinel status, is produced. A sweep that reaches
  that grid point, every earlier point having given a row, and whose output is not a
  stream opened for reading, ends with that same \<^verbatim>\<open>AssertionError\<close>.
\<close>

theorem echo_mismatch_is_fatal:
  fixes fcol pcol :: column and n_files n_parallel :: int
  defines "files_echoed \<equiv>
             (case fcol of
                Int64 xs \<Rightarrow> \<forall>x \<in> set xs. x = n_files
              | Float64 xs \<Rightarrow> \<forall>x \<in> set xs. x = Some (real_of_int n_files))"
    and "parallel_echoed \<equiv>
             (case pcol of
                Int64 xs \<Rightarrow> \<forall>x \<in> set xs. x = n_parallel
              | Float64 xs \<Rightarrow> \<forall>x \<in> set xs. x = Some (real_of_int n_parallel))"
  assumes "run nvim n_files n_parallel n_warmup duration = Completed (Inr csv) err"
    and "map_of csv ''n_files'' = Some fcol" and "map_of csv ''n_parallel'' = Some pcol"
    and "(\<exists>xs. fcol = Int64 xs) \<or> \<bar>n_files\<bar> \<le> 2 ^ 53"
    and "(\<exists>xs. pcol = Int64 xs) \<or> \<bar>n_parallel\<bar> \<le> 2 ^ 53"
  shows
    "(files_echoed \<and> parallel_echoed \<longrightarrow>
        fst (get_data_row run nvim n_files n_parallel n_warmup duration w)
          = Inr (attach_metadata (drop_columns [''n_files'', ''n_parallel''] csv)
                   ''ok'' n_files n_parallel))
     \<and> (\<not> (files_echoed \<and> parallel_echoed) \<longrightarrow>
          fst (get_data_row run nvim n_files n_parallel n_warmup duration w)
            = Inl (AssertionError csv)
          \<and> (N < length (List.product files_range parallel_range)
               \<and> List.product files_range parallel_range ! N = (n_files, n_parallel)
               \<and> map (\<lambda>(nf, np). fst (get_data_row run nvim nf np n_warmup duration w))
                     (take N (List.product files_range parallel_range)) = map Inr rows
               \<and> output \<noteq> Some Reader \<longrightarrow>
               fst (main_inner run nvim files_range parallel_range n_warmup duration output w)
                 = Inl (AssertionError csv)))"
proof -
  have f: "column_all_eq csv ''n_files'' n_files = Some files_echoed"
    using assms(4) column_eq_exact [OF assms(6)]
    by (simp add: column_all_eq_def files_echoed_def)
  have p: "column_all_eq csv ''n_parallel'' n_parallel = Some parallel_echoed"
    using assms(5) column_eq_exact [OF assms(7)]
    by (simp add: column_all_eq_def parallel_echoed_def)
  have echo: "check_echo csv n_files n_parallel =
      (if files_echoed \<and> parallel_echoed
       then Inr (drop_columns [''n_files'', ''n_parallel''] csv)
       else Inl (AssertionError csv))"
    by (simp add: check_echo_def f p split: bool.splits)
  have row: "fst (get_data_row run nvim n_files n_parallel n_warmup duration w)
      = (if files_echoed \<and> parallel_echoed
         then Inr (attach_metadata (drop_columns [''n_files'', ''n_parallel''] csv)
                     ''ok'' n_files n_parallel)
         else Inl (AssertionError csv))"
    using assms(3) get_data_row_completed [of run nvim n_files n_parallel n_warmup duration csv err w]
    by (simp add: echo)
  have sweep: "fst (main_inner run nvim files_range parallel_range n_warmup duration output w)
                 = Inl (AssertionError csv)"
    if mismatch: "\<not> (files_echoed \<and> parallel_echoed)"
      and n: "N < length (List.product files_range parallel_range)"
      and at: "List.product files_range parallel_range ! N = (n_files, n_parallel)"
      and before: "map (\<lambda>(nf, np). fst (get_data_row run nvim nf np n_warmup duration w))
                     (take N (List.product files_range parallel_range)) = map Inr rows"
      and out: "output \<noteq> Some Reader"
  proof -
    have "(case List.product files_range parallel_range ! N of (nf, np) \<Rightarrow>
             fst (get_data_row run nvim nf np n_warmup duration w)) = Inl (AssertionError csv)"
      using at row mismatch by simp
    then obtain w' where
      "outer_loop run nvim files_range parallel_range n_warmup duration [] w
         = ((Some (AssertionError csv), rows), w')"
      using traversal_abort [OF n before] by blast
    then show ?thesis using out by (rule main_inner_raises)
  qed
  show ?thesis
    using row sweep by auto
qed

theorem echo_mismatch_is_fatal_witness:
  "fst (get_data_row
         (\<lambda>nvim nf np nw d.
            if np = 0 then NonZeroExit ''EMFILE: too many open files''
            else Completed (Inr [(''time_ms'', Float64 [Some 2, Some 3]),
                                 (''n_files'', Int64 [0, 0]),
                                 (''n_parallel'', Int64 [1, 2])]) [])
         ''nvim'' 0 1 10 2 \<lparr>out_sink = [], err_channel = []\<rparr>)
     = Inl (AssertionError [(''time_ms'', Float64 [Some 2, Some 3]),
                            (''n_files'', Int64 [0, 0]),
                            (''n_parallel'', Int64 [1, 2])])
   \<and> fst (main_inner
         (\<lambda>nvim nf np nw d.
            if np = 0 then NonZeroExit ''EMFILE: too many open files''
            else Completed (Inr [(''time_ms'', Float64 [Some 2, Some 3]),
                                 (''n_files'', Int64 [0, 0]),
                                 (''n_parallel'', Int64 [1, 2])]) [])
         ''nvim'' [0] [0, 1] 10 2 (Some Writer) \<lparr>out_sink = [], err_channel = []\<rparr>)
     = Inl (AssertionError [(''time_ms'', Float64 [Some 2, Some 3]),
                            (''n_files'', Int64 [0, 0]),
                            (''n_parallel'', Int64 [1, 2])])
   \<and> fst (get_data_row
         (\<lambda>nvim nf np nw d.
            Completed (Inr [(''time_ms'', Float64 [Some 2, Some 3]),
                            (''n_files'', Float64 [Some 0, Some 0]),
                            (''n_parallel'', Int64 [1, 1])]) [])
         ''nvim'' 0 1 10 2 \<lparr>out_sink = [], err_channel = []\<rparr>)
     = Inr (attach_metadata [(''time_ms'', Float64 [Some 2, Some 3])] ''ok'' 0 1)"
proof -
  let ?w = "\<lparr>out_sink = [], err_channel = []\<rparr>"
  let ?bad = "[(''time_ms'', Float64 [Some (2::real), Some 3]),
               (''n_files'', Int64 [0, 0]),
               (''n_parallel'', Int64 [1, 2])]"
  let ?good = "[(''time_ms'', Float64 [Some (2::real), Some 3]),
                (''n_files'', Float64 [Some 0, Some 0]),
                (''n_parallel'', Int64 [1, 1])]"
  let ?run = "\<lambda>(nvim::string) (nf::int) (np::int) (nw::int) (d::real).
                if np = 0 then NonZeroExit ''EMFILE: too many open files''
                else Completed (Inr ?bad) []"
  have first: "fst (get_data_row ?run ''nvim'' 0 0 10 2 ?w)
                 = Inr (attach_metadata make_empty_data ''emfile'' 0 0)"
    by (simp add: run_simps)
  show ?thesis
    using first
      echo_mismatch_is_fatal
        [where run = ?run and nvim = "''nvim''" and n_files = 0 and n_parallel = 1
           and n_warmup = 10 and duration = 2 and csv = ?bad and err = "[]"
           and fcol = "Int64 [0, 0]" and pcol = "Int64 [1, 2]" and w = ?w
           and N = 1 and files_range = "[0]" and parallel_range = "[0, 1]"
           and rows = "[attach_metadata make_empty_data ''emfile'' 0 0]"
           and ?output = "Some Writer"]
      echo_mismatch_is_fatal
        [where run = "\<lambda>nvim nf np nw d. Completed (Inr ?good) []" and nvim = "''nvim''"
           and n_files = 0 and n_parallel = 1 and n_warmup = 10 and duration = 2
           and csv = ?good and err = "[]"
           and fcol = "Float64 [Some 0, Some 0]" and pcol = "Int64 [1, 1]" and w = ?w]
    by (simp add: drop_columns_def)
qed

theorem float_echo_counterexample:
  "Some (9007199254740992::real) \<noteq> Some (real_of_int 9007199254740993)
   \<and> fst (get_data_row
         (\<lambda>nvim nf np nw d.
            Completed (Inr [(''time_ms'', Float64 [Some 2]),
                            (''n_files'', Float64 [Some 9007199254740992]),
                            (''n_parallel'', Float64 [Some 0])]) [])
         ''nvim'' 9007199254740993 0 10 2 \<lparr>out_sink = [], err_channel = []\<rparr>)
     = Inr (attach_metadata [(''time_ms'', Float64 [Some 2])] ''ok'' 9007199254740993 0)"
  by (simp add: run_simps check_echo_def column_all_eq_def drop_columns_def
      float64_rounds_above float64_of_int_exact)

subsection \<open>The keys of a summary row\<close>

lemma setitem_new:
  "key \<notin> fst ` fst ` set s \<Longrightarrow> setitem s key v = s @ [((key, []), v)]"
  by (auto simp: setitem_def image_iff)

lemma first_level_collect_stats:
  "stats \<noteq> [] \<Longrightarrow> fst ` fst ` set (collect_stats data stats) = fst ` set data"
  by (cases stats) (auto simp: set_collect_stats image_iff; force)+

lemma attach_metadata_appended:
  assumes "''status'' \<notin> fst ` set csv" and "''n_files'' \<notin> fst ` set csv"
    and "''n_parallel'' \<notin> fst ` set csv"
  shows "attach_metadata csv status n_files n_parallel =
           collect_stats csv [Mean, Median, Minimum, Maximum, Std]
           @ [((''status'', []), StrV status),
              ((''n_files'', []), IntV n_files),
              ((''n_parallel'', []), IntV n_parallel)]"
proof -
  let ?s = "collect_stats csv [Mean, Median, Minimum, Maximum, Std]"
  have lev: "fst ` fst ` set ?s = fst ` set csv"
    by (rule first_level_collect_stats) simp
  have a: "setitem ?s ''status'' (StrV status) = ?s @ [((''status'', []), StrV status)]"
    using assms(1) lev by (simp add: setitem_new)
  have b: "setitem (?s @ [((''status'', []), StrV status)]) ''n_files'' (IntV n_files)
             = ?s @ [((''status'', []), StrV status), ((''n_files'', []), IntV n_files)]"
    using assms(2) lev by (simp add: setitem_new)
  have c: "setitem (?s @ [((''status'', []), StrV status), ((''n_files'', []), IntV n_files)])
               ''n_parallel'' (IntV n_parallel)
             = ?s @ [((''status'', []), StrV status), ((''n_files'', []), IntV n_files),
                     ((''n_parallel'', []), IntV n_parallel)]"
    using assms(3) lev by (simp add: setitem_new)
  show ?thesis
    by (simp add: attach_metadata_def a b c)
qed

lemma columns_drop_columns:
  "fst ` set (drop_columns names csv) = fst ` set csv - set names"
  by (auto simp: drop_columns_def image_iff)

lemma collect_stats_empty_data:
  "collect_stats make_empty_data [Mean, Median, Minimum, Maximum, Std] =
     [((''setup_ms'', ''max''), FloatV None), ((''setup_ms'', ''mean''), FloatV None),
      ((''setup_ms'', ''median''), FloatV None), ((''setup_ms'', ''min''), FloatV None),
      ((''setup_ms'', ''std''), FloatV None),
      ((''time_ms'', ''max''), FloatV None), ((''time_ms'', ''mean''), FloatV None),
      ((''time_ms'', ''median''), FloatV None), ((''time_ms'', ''min''), FloatV None),
      ((''time_ms'', ''std''), FloatV None)]"
  by (simp add: make_empty_data_def collect_stats_def sort_index_def swaplevel_def
      concat_keys_def col_mean_def col_median_def col_min_def col_max_def col_std_def dropna_def)

lemma columns_empty_data: "fst ` set make_empty_data = {''setup_ms'', ''time_ms''}"
  by (auto simp: make_empty_data_def)

lemma get_data_row_failed:
  "run nvim nf np nw d = NonZeroExit err \<Longrightarrow>
     get_data_row run nvim nf np nw d w
       = (case classify_failure err of
            Inl e \<Rightarrow> (Inl e, w)
          | Inr (csv, status) \<Rightarrow> (Inr (attach_metadata csv status nf np), w))"
  by (simp add: get_data_row_def benchmark_dir_def)

lemma classify_failure_Inr:
  "classify_failure err = Inr (csv, status) \<longleftrightarrow>
     csv = make_empty_data \<and> get_known_error_code err = Some status"
  by (auto simp: classify_failure_def get_known_error_code_cases split: option.splits if_splits)

lemma sentinel_row:
  assumes "run nvim nf np nw d = NonZeroExit err"
    and "get_data_row run nvim nf np nw d w = (Inr row, w')"
  shows "\<exists>status. get_known_error_code err = Some status
           \<and> row = attach_metadata make_empty_data status nf np"
proof (cases "classify_failure err")
  case (Inl e)
  then show ?thesis using assms by (simp add: get_data_row_failed)
next
  case (Inr p)
  obtain csv status where p: "p = (csv, status)" by (cases p)
  then have "csv = make_empty_data" "get_known_error_code err = Some status"
    using Inr classify_failure_Inr by auto
  then show ?thesis using assms Inr p by (auto simp: get_data_row_failed)
qed

lemma ok_row:
  assumes "run nvim nf np nw d = Completed (Inr csv) err"
    and "get_data_row run nvim nf np nw d w = (Inr row, w')"
  shows "row = attach_metadata (drop_columns [''n_files'', ''n_parallel''] csv) ''ok'' nf np"
proof -
  have "fst (get_data_row run nvim nf np nw d w) = Inr row" using assms(2) by simp
  then have *: "(case check_echo csv nf np of Inl e \<Rightarrow> Inl e
             | Inr csv' \<Rightarrow> Inr (attach_metadata csv' ''ok'' nf np)) = Inr row"
    using get_data_row_completed [of run nvim nf np nw d csv err w] assms(1) by simp
  then obtain csv' where c: "check_echo csv nf np = Inr csv'"
    "row = attach_metadata csv' ''ok'' nf np"
    by (auto split: sum.splits)
  have "csv' = drop_columns [''n_files'', ''n_parallel''] csv"
    using c(1) by (auto simp: check_echo_def split: option.splits bool.splits)
  then show ?thesis using c(2) by simp
qed

lemma keys_attach_two_metrics:
  assumes "fst ` set csv = {''setup_ms'', ''time_ms''}"
  shows "set (map fst (attach_metadata csv status nf np)) =
           {''setup_ms'', ''time_ms''} \<times> {''mean'', ''median'', ''min'', ''max'', ''std''}
           \<union> {(''status'', []), (''n_files'', []), (''n_parallel'', [])}"
proof -
  have "attach_metadata csv status nf np =
          collect_stats csv [Mean, Median, Minimum, Maximum, Std]
          @ [((''status'', []), StrV status), ((''n_files'', []), IntV nf),
             ((''n_parallel'', []), IntV np)]"
    by (rule attach_metadata_appended) (simp_all add: assms)
  moreover have "fst ` set (collect_stats csv [Mean, Median, Minimum, Maximum, Std])
      = {''setup_ms'', ''time_ms''} \<times> {''mean'', ''median'', ''min'', ''max'', ''std''}"
    by (simp add: keys_collect_stats assms)
  ultimately show ?thesis by auto
qed

lemma sentinel_stats_missing:
  "map_of (attach_metadata make_empty_data status nf np) (''setup_ms'', stat_name st)
     = Some (FloatV None)
   \<and> map_of (attach_metadata make_empty_data status nf np) (''time_ms'', stat_name st)
     = Some (FloatV None)"
  by (cases st)
    (simp_all add: attach_metadata_appended columns_empty_data collect_stats_empty_data)

text \<open>
  Claim C3, as amended. When the worker's table has exactly the columns
  \<open>setup_ms\<close>, \<open>time_ms\<close>, \<open>n_files\<close> and \<open>n_parallel\<close>, the row of a successful
  outcome and the row of a classified failure at the same grid point have the same
  set of keys: the two metrics with each of the five statistics, and \<open>status\<close>,
  \<open>n_files\<close>, \<open>n_parallel\<close>. In the failure row every statistic is present with a
  missing value.
\<close>

theorem same_keys_for_two_metrics:
  assumes "run_ok nvim n_files n_parallel n_warmup duration = Completed (Inr csv) err"
    and "get_data_row run_ok nvim n_files n_parallel n_warmup duration w = (Inr row_ok, w1)"
    and "run_fail nvim n_files n_parallel n_warmup duration = NonZeroExit stderr"
    and "get_data_row run_fail nvim n_files n_parallel n_warmup duration w = (Inr row_fail, w2)"
    and "fst ` set csv = {''setup_ms'', ''time_ms'', ''n_files'', ''n_parallel''}"
  shows "set (map fst row_ok) = set (map fst row_fail)
       \<and> set (map fst row_fail) =
           {''setup_ms'', ''time_ms''} \<times> {''mean'', ''median'', ''min'', ''max'', ''std''}
           \<union> {(''status'', []), (''n_files'', []), (''n_parallel'', [])}
       \<and> (\<forall>st. map_of row_fail (''setup_ms'', stat_name st) = Some (FloatV None)
               \<and> map_of row_fail (''time_ms'', stat_name st) = Some (FloatV None))"
proof -
  let ?csv' = "drop_columns [''n_files'', ''n_parallel''] csv"
  have ok: "row_ok = attach_metadata ?csv' ''ok'' n_files n_parallel"
    using ok_row [OF assms(1,2)] .
  obtain status where fail: "row_fail = attach_metadata make_empty_data status n_files n_parallel"
    using sentinel_row [OF assms(3,4)] by blast
  have "fst ` set ?csv' = {''setup_ms'', ''time_ms''}"
    by (auto simp: columns_drop_columns assms(5))
  then have k1: "set (map fst row_ok) =
           {''setup_ms'', ''time_ms''} \<times> {''mean'', ''median'', ''min'', ''max'', ''std''}
           \<union> {(''status'', []), (''n_files'', []), (''n_parallel'', [])}"
    unfolding ok by (rule keys_attach_two_metrics)
  have k2: "set (map fst row_fail) =
           {''setup_ms'', ''time_ms''} \<times> {''mean'', ''median'', ''min'', ''max'', ''std''}
           \<union> {(''status'', []), (''n_files'', []), (''n_parallel'', [])}"
    unfolding fail by (rule keys_attach_two_metrics) (rule columns_empty_data)
  show ?thesis
    using k1 k2 sentinel_stats_missing [of status n_files n_parallel] unfolding fail by simp
qed

theorem same_keys_for_two_metrics_witness:
  "fst (get_data_row
         (\<lambda>nvim nf np nw d. Completed (Inr [(''setup_ms'', Float64 [Some 1]), (''time_ms'', Float64 [Some 2]),
                                            (''n_files'', Int64 [0]), (''n_parallel'', Int64 [0])]) [])
         ''nvim'' 0 0 10 2 \<lparr>out_sink = [], err_channel = []\<rparr>)
     = Inr (attach_metadata [(''setup_ms'', Float64 [Some 1]), (''time_ms'', Float64 [Some 2])] ''ok'' 0 0)
   \<and> fst (get_data_row (\<lambda>nvim nf np nw d. NonZeroExit ''EMFILE: too many open files'')
         ''nvim'' 0 0 10 2 \<lparr>out_sink = [], err_channel = []\<rparr>)
     = Inr (attach_metadata make_empty_data ''emfile'' 0 0)
   \<and> set (map fst (attach_metadata [(''setup_ms'', Float64 [Some 1]), (''time_ms'', Float64 [Some 2])] ''ok'' 0 0))
     = set (map fst (attach_metadata make_empty_data ''emfile'' 0 0))"
proof -
  let ?w = "\<lparr>out_sink = [], err_channel = []\<rparr>"
  let ?csv = "[(''setup_ms'', Float64 [Some (1::real)]), (''time_ms'', Float64 [Some 2]),
               (''n_files'', Int64 [0]), (''n_parallel'', Int64 [0])]"
  let ?ok = "\<lambda>(nvim::string) (nf::int) (np::int) (nw::int) (d::real). Completed (Inr ?csv) []"
  let ?fail = "\<lambda>(nvim::string) (nf::int) (np::int) (nw::int) (d::real).
                 NonZeroExit ''EMFILE: too many open files''"
  have r1: "get_data_row ?ok ''nvim'' 0 0 10 2 ?w
      = (Inr (attach_metadata [(''setup_ms'', Float64 [Some 1]), (''time_ms'', Float64 [Some 2])] ''ok'' 0 0), ?w)"
    by (simp add: run_simps check_echo_def column_all_eq_def drop_columns_def)
  have r2: "get_data_row ?fail ''nvim'' 0 0 10 2 ?w
      = (Inr (attach_metadata make_empty_data ''emfile'' 0 0), ?w)"
    by (simp add: run_simps)
  have cols: "fst ` set ?csv = {''setup_ms'', ''time_ms'', ''n_files'', ''n_parallel''}"
    by simp
  show ?thesis
    using r1 r2
      same_keys_for_two_metrics
        [where run_ok = ?ok and run_fail = ?fail and nvim = "''nvim''" and n_files = 0
           and n_parallel = 0 and n_warmup = 10 and duration = 2 and csv = ?csv
           and err = "[]" and stderr = "''EMFILE: too many open files''" and w = ?w,
         OF _ r1 _ r2 cols]
    by simp
qed

theorem extra_metric_counterexample:
  "fst (get_data_row
         (\<lambda>nvim nf np nw d. Completed (Inr [(''setup_ms'', Float64 [Some 1]), (''time_ms'', Float64 [Some 2]),
                                            (''extra_ms'', Float64 [Some 3]),
                                            (''n_files'', Int64 [0]), (''n_parallel'', Int64 [0])]) [])
         ''nvim'' 0 0 10 2 \<lparr>out_sink = [], err_channel = []\<rparr>)
     = Inr (attach_metadata [(''setup_ms'', Float64 [Some 1]), (''time_ms'', Float64 [Some 2]),
                             (''extra_ms'', Float64 [Some 3])] ''ok'' 0 0)
   \<and> fst (get_data_row (\<lambda>nvim nf np nw d. NonZeroExit ''EMFILE: too many open files'')
         ''nvim'' 0 0 10 2 \<lparr>out_sink = [], err_channel = []\<rparr>)
     = Inr (attach_metadata make_empty_data ''emfile'' 0 0)
   \<and> (''extra_ms'', ''mean'')
       \<in> set (map fst (attach_metadata [(''setup_ms'', Float64 [Some 1]), (''time_ms'', Float64 [Some 2]),
                                        (''extra_ms'', Float64 [Some 3])] ''ok'' 0 0))
   \<and> (''extra_ms'', ''mean'') \<notin> set (map fst (attach_metadata make_empty_data ''emfile'' 0 0))
   \<and> length (attach_metadata [(''setup_ms'', Float64 [Some 1]), (''time_ms'', Float64 [Some 2]),
                               (''extra_ms'', Float64 [Some 3])] ''ok'' 0 0) = 18
   \<and> length (attach_metadata make_empty_data ''emfile'' 0 0) = 13"
  by (simp add: run_simps stat_simps)

text \<open>
  Claim C4, as amended. For a successful outcome whose table has no column named
  \<open>status\<close>, and for every classified failure, the row is the block of statistics
  followed by three entries, in this order: \<open>status\<close> with the outcome tag, then
  \<open>n_files\<close> and \<open>n_parallel\<close> with the values of the requested grid point.
\<close>

theorem metadata_appended:
  "(run nvim n_files n_parallel n_warmup duration = Completed (Inr csv) err
      \<and> ''status'' \<notin> fst ` set csv
      \<and> get_data_row run nvim n_files n_parallel n_warmup duration w = (Inr row, w') \<longrightarrow>
      row = collect_stats (drop_columns [''n_files'', ''n_parallel''] csv)
              [Mean, Median, Minimum, Maximum, Std]
            @ [((''status'', []), StrV ''ok''),
               ((''n_files'', []), IntV n_files),
               ((''n_parallel'', []), IntV n_parallel)])
   \<and> (run nvim n_files n_parallel n_warmup duration = NonZeroExit stderr
        \<and> get_data_row run nvim n_files n_parallel n_warmup duration w = (Inr row, w') \<longrightarrow>
        (\<exists>status. get_known_error_code stderr = Some status
           \<and> row = collect_stats make_empty_data [Mean, Median, Minimum, Maximum, Std]
                   @ [((''status'', []), StrV status),
                      ((''n_files'', []), IntV n_files),
                      ((''n_parallel'', []), IntV n_parallel)]))"
proof (intro conjI impI)
  assume a: "run nvim n_files n_parallel n_warmup duration = Completed (Inr csv) err
      \<and> ''status'' \<notin> fst ` set csv
      \<and> get_data_row run nvim n_files n_parallel n_warmup duration w = (Inr row, w')"
  let ?csv' = "drop_columns [''n_files'', ''n_parallel''] csv"
  have "row = attach_metadata ?csv' ''ok'' n_files n_parallel"
    using a ok_row by blast
  moreover have "''status'' \<notin> fst ` set ?csv'" "''n_files'' \<notin> fst ` set ?csv'"
    "''n_parallel'' \<notin> fst ` set ?csv'"
    using a by (simp_all add: columns_drop_columns)
  ultimately show "row = collect_stats ?csv' [Mean, Median, Minimum, Maximum, Std]
            @ [((''status'', []), StrV ''ok''),
               ((''n_files'', []), IntV n_files),
               ((''n_parallel'', []), IntV n_parallel)]"
    by (simp add: attach_metadata_appended)
next
  assume a: "run nvim n_files n_parallel n_warmup duration = NonZeroExit stderr
        \<and> get_data_row run nvim n_files n_parallel n_warmup duration w = (Inr row, w')"
  then obtain status where s: "get_known_error_code stderr = Some status"
    "row = attach_metadata make_empty_data status n_files n_parallel"
    using sentinel_row by blast
  have "row = collect_stats make_empty_data [Mean, Median, Minimum, Maximum, Std]
                   @ [((''status'', []), StrV status),
                      ((''n_files'', []), IntV n_files),
                      ((''n_parallel'', []), IntV n_parallel)]"
    unfolding s(2) by (rule attach_metadata_appended) (simp_all add: columns_empty_data)
  then show "\<exists>status. get_known_error_code stderr = Some status
           \<and> row = collect_stats make_empty_data [Mean, Median, Minimum, Maximum, Std]
                   @ [((''status'', []), StrV status),
                      ((''n_files'', []), IntV n_files),
                      ((''n_parallel'', []), IntV n_parallel)]"
    using s(1) by blast
qed

theorem metadata_appended_witness:
  "get_data_row
     (\<lambda>nvim nf np nw d. Completed (Inr [(''setup_ms'', Float64 [Some 1]), (''time_ms'', Float64 [Some 2]),
                                        (''n_files'', Int64 [0]), (''n_parallel'', Int64 [100])]) [])
     ''nvim'' 0 100 10 2 \<lparr>out_sink = [], err_channel = []\<rparr>
     = (Inr (collect_stats [(''setup_ms'', Float64 [Some 1]), (''time_ms'', Float64 [Some 2])]
               [Mean, Median, Minimum, Maximum, Std]
             @ [((''status'', []), StrV ''ok''), ((''n_files'', []), IntV 0),
                ((''n_parallel'', []), IntV 100)]),
        \<lparr>out_sink = [], err_channel = []\<rparr>)
   \<and> get_data_row (\<lambda>nvim nf np nw d. NonZeroExit ''promise timeout of 20000ms reached'')
       ''nvim'' 0 100 10 2 \<lparr>out_sink = [], err_channel = []\<rparr>
     = (Inr (collect_stats make_empty_data [Mean, Median, Minimum, Maximum, Std]
             @ [((''status'', []), StrV ''timeout''), ((''n_files'', []), IntV 0),
                ((''n_parallel'', []), IntV 100)]),
        \<lparr>out_sink = [], err_channel = []\<rparr>)"
proof -
  let ?w = "\<lparr>out_sink = [], err_channel = []\<rparr>"
  let ?csv = "[(''setup_ms'', Float64 [Some (1::real)]), (''time_ms'', Float64 [Some 2]),
               (''n_files'', Int64 [0]), (''n_parallel'', Int64 [100])]"
  let ?ok = "\<lambda>(nvim::string) (nf::int) (np::int) (nw::int) (d::real). Completed (Inr ?csv) []"
  let ?fail = "\<lambda>(nvim::string) (nf::int) (np::int) (nw::int) (d::real).
                 NonZeroExit ''promise timeout of 20000ms reached''"
  have r1: "get_data_row ?ok ''nvim'' 0 100 10 2 ?w
      = (Inr (attach_metadata [(''setup_ms'', Float64 [Some 1]), (''time_ms'', Float64 [Some 2])] ''ok'' 0 100), ?w)"
    by (simp add: run_simps check_echo_def column_all_eq_def drop_columns_def)
  have r2: "get_data_row ?fail ''nvim'' 0 100 10 2 ?w
      = (Inr (attach_metadata make_empty_data ''timeout'' 0 100), ?w)"
    by (simp add: run_simps)
  have code: "get_known_error_code ''promise timeout of 20000ms reached'' = Some ''timeout''"
    by (simp add: get_known_error_code_def KNOWN_ERRORS_def partition_head_def newline_def)
  have nostatus: "''status'' \<notin> fst ` set ?csv"
    by simp
  show ?thesis
    using r1 r2 code nostatus
      metadata_appended
        [where run = ?ok and nvim = "''nvim''" and n_files = 0 and n_parallel = 100
           and n_warmup = 10 and duration = 2 and csv = ?csv and err = "[]" and w = ?w
           and row = "attach_metadata [(''setup_ms'', Float64 [Some 1]), (''time_ms'', Float64 [Some 2])] ''ok'' 0 100"
           and w' = ?w]
      metadata_appended
        [where run = ?fail and nvim = "''nvim''" and n_files = 0 and n_parallel = 100
           and n_warmup = 10 and duration = 2
           and stderr = "''promise timeout of 20000ms reached''" and w = ?w
           and row = "attach_metadata make_empty_data ''timeout'' 0 100"
           and w' = ?w]
    by (simp add: drop_columns_def)
qed

theorem status_column_counterexample:
  "get_data_row
     (\<lambda>nvim nf np nw d. Completed (Inr [(''setup_ms'', Float64 [Some 1]), (''status'', Float64 [Some 7]),
                                        (''time_ms'', Float64 [Some 2]),
                                        (''n_files'', Int64 [0]), (''n_parallel'', Int64 [0])]) [])
     ''nvim'' 0 0 10 2 \<lparr>out_sink = [], err_channel = []\<rparr>
   = (Inr [((''setup_ms'', ''max''), FloatV (Some 1)), ((''setup_ms'', ''mean''), FloatV (Some 1)),
           ((''setup_ms'', ''median''), FloatV (Some 1)), ((''setup_ms'', ''min''), FloatV (Some 1)),
           ((''setup_ms'', ''std''), FloatV None),
           ((''status'', ''max''), StrV ''ok''), ((''status'', ''mean''), StrV ''ok''),
           ((''status'', ''median''), StrV ''ok''), ((''status'', ''min''), StrV ''ok''),
           ((''status'', ''std''), StrV ''ok''),
           ((''time_ms'', ''max''), FloatV (Some 2)), ((''time_ms'', ''mean''), FloatV (Some 2)),
           ((''time_ms'', ''median''), FloatV (Some 2)), ((''time_ms'', ''min''), FloatV (Some 2)),
           ((''time_ms'', ''std''), FloatV None),
           ((''n_files'', []), IntV 0), ((''n_parallel'', []), IntV 0)],
      \<lparr>out_sink = [], err_channel = []\<rparr>)"
  by (simp add: run_simps stat_simps)

subsection \<open>The program run on concrete workers\<close>

text \<open>
  The stream that \<open>main\<close> hands to \<open>main_inner\<close> is absent or opened for reading, so a
  run through \<open>main\<close> leaves the output sink as it was.
\<close>

lemma write_csv_unwritable:
  "out \<noteq> Some Writer \<Longrightarrow> out_sink (snd (write_csv rows out na_rep w)) = out_sink w"
  by (cases out) (auto simp: write_csv_def split: text_io.splits)

lemma main_inner_unwritable:
  assumes "out \<noteq> Some Writer"
  shows "out_sink (snd (main_inner run nvim files_range parallel_range nw d out w)) = out_sink w"
proof -
  obtain r w' where loop: "outer_loop run nvim files_range parallel_range nw d [] w = (r, w')"
    by (cases "outer_loop run nvim files_range parallel_range nw d [] w")
  obtain oe rows where r: "r = (oe, rows)" by (cases r)
  have sink: "out_sink w' = out_sink w" using outer_loop_sink [OF loop] .
  have wr: "out_sink (snd (write_csv rows out na w')) = out_sink w" for na
    using write_csv_unwritable [OF assms, of rows na w'] sink by simp
  show ?thesis
    using loop r sink wr [of "[]"] wr [of "''nan''"]
    by (auto simp: main_inner_def split: option.splits prod.splits)
qed

lemma main_inner_unwritable_result:
  "main_inner run nvim files_range parallel_range nw d out w = (r, w') \<Longrightarrow>
     out \<noteq> Some Writer \<Longrightarrow> out_sink w' = out_sink w"
  using main_inner_unwritable [of out run nvim files_range parallel_range nw d w] by simp

lemma main_writes_nothing: "out_sink (snd (main run a w)) = out_sink w"
proof -
  have out: "map_option (\<lambda>name. Reader) (args_output a) \<noteq> Some Writer"
    by (cases "args_output a") simp_all
  obtain r w' where m: "main run a w = (r, w')" by (cases "main run a w")
  have "out_sink w' = out_sink w"
    using m out
    by (auto simp: main_def split: option.splits sum.splits prod.splits exn.splits
        dest!: main_inner_unwritable_result)
  then show ?thesis using m by simp
qed

lemma py_range_unit: "py_range (0, 1, 1) = Inr [0]"
  by (simp add: py_range_def)

lemma py_range_example: "py_range (0, 200, 100) = Inr [0, 100]"
  by (simp add: py_range_def upt_rec)

text \<open>
  Claim C5: the report written before an abort. At the grid \<open>[0] \<times> [0, 1]\<close>, with an
  output stream opened for writing and a
  worker that fails with the known \<^verbatim>\<open>EMFILE\<close> text at parallelism 0 and with an
  unknown text at parallelism 1, the handler of \<open>main_inner\<close> writes the one sentinel
  row with every missing statistic as an empty field. When both invocations fail with
  the known text, the report of the normal exit writes the same values as \<open>nan\<close>.
\<close>

theorem partial_report_blank_fields:
  "main_inner
     (\<lambda>nvim nf np nw d. if np = 0 then NonZeroExit ''EMFILE: too many open files''
                         else NonZeroExit ''boom'')
     ''nvim'' [0] [0, 1] 10 2 (Some Writer) \<lparr>out_sink = [], err_channel = []\<rparr>
   = (Inl (CalledProcessError ''boom''),
      \<lparr>out_sink =
         [[Text [], Text ''setup_ms'', Text ''setup_ms'', Text ''setup_ms'', Text ''setup_ms'',
           Text ''setup_ms'', Text ''time_ms'', Text ''time_ms'', Text ''time_ms'',
           Text ''time_ms'', Text ''time_ms'', Text ''status'', Text ''n_files'',
           Text ''n_parallel''],
          [Text [], Text ''max'', Text ''mean'', Text ''median'', Text ''min'', Text ''std'',
           Text ''max'', Text ''mean'', Text ''median'', Text ''min'', Text ''std'',
           Text [], Text [], Text []],
          [Whole 0, Text [], Text [], Text [], Text [], Text [],
           Text [], Text [], Text [], Text [], Text [],
           Text ''emfile'', Whole 0, Whole 0]],
       err_channel = []\<rparr>)
   \<and> main_inner (\<lambda>nvim nf np nw d. NonZeroExit ''EMFILE: too many open files'')
       ''nvim'' [0] [0] 10 2 (Some Writer) \<lparr>out_sink = [], err_channel = []\<rparr>
   = (Inr (),
      \<lparr>out_sink =
         [[Text [], Text ''setup_ms'', Text ''setup_ms'', Text ''setup_ms'', Text ''setup_ms'',
           Text ''setup_ms'', Text ''time_ms'', Text ''time_ms'', Text ''time_ms'',
           Text ''time_ms'', Text ''time_ms'', Text ''status'', Text ''n_files'',
           Text ''n_parallel''],
          [Text [], Text ''max'', Text ''mean'', Text ''median'', Text ''min'', Text ''std'',
           Text ''max'', Text ''mean'', Text ''median'', Text ''min'', Text ''std'',
           Text [], Text [], Text []],
          [Whole 0, Text ''nan'', Text ''nan'', Text ''nan'', Text ''nan'', Text ''nan'',
           Text ''nan'', Text ''nan'', Text ''nan'', Text ''nan'', Text ''nan'',
           Text ''emfile'', Whole 0, Whole 0]],
       err_channel = []\<rparr>)"
  by (simp add: main_inner_def write_csv_def run_simps stat_simps to_csv_def frame_columns_def
      data_line_def row_cell_def)

text \<open>
  Claim C9: the exit status. With a worker that fails with an unknown error text,
  \<open>main\<close> prints the traceback, the separator and the captured error text and returns
  1, but the module drops that value, so the process ends with status 0.
\<close>

theorem script_exit_status_dropped:
  "main (\<lambda>nvim nf np nw d. NonZeroExit ''boom'')
     \<lparr>args_output = None, args_nvim = Some ''nvim'', args_files_range = (0, 1, 1),
      args_parallel_range = None,
      args_n_warmup = 10, args_duration = 2\<rparr>
     \<lparr>out_sink = [], err_channel = []\<rparr>
   = (Inr 1,
      \<lparr>out_sink = [],
       err_channel = [Traceback (CalledProcessError ''boom''), Printed separator,
                      Printed (''catured error output:'' @ newline # ''boom'')]\<rparr>)
   \<and> run_as_script (\<lambda>nvim nf np nw d. NonZeroExit ''boom'')
     \<lparr>args_output = None, args_nvim = Some ''nvim'', args_files_range = (0, 1, 1),
      args_parallel_range = None,
      args_n_warmup = 10, args_duration = 2\<rparr>
     \<lparr>out_sink = [], err_channel = []\<rparr>
   = (0,
      \<lparr>out_sink = [],
       err_channel = [Traceback (CalledProcessError ''boom''), Printed separator,
                      Printed (''catured error output:'' @ newline # ''boom'')]\<rparr>)"
  by (simp add: run_as_script_def main_def py_range_unit main_inner_def run_simps)

end
